theory Spec2Isabelle
  imports Complex_Main "HOL-Library.Product_Lexorder"
begin

section \<open>Streamflow statistics of program_10.py\<close>

text \<open>
  The program reads a daily discharge record into a pandas DataFrame indexed by date and
  computes per-water-year metrics. The embedding below follows the functions of
  \<^verbatim>\<open>src/program_10.py\<close> one by one.

  Numbers. A pandas float cell is either a number or one of the IEEE special values. The
  finite values are reals and the special values are constructors of their own; zero
  carries no sign (a zero divisor behaves as +0). A number that the program only reports
  is modelled by its exact value. A number that decides a comparison (the mean in
  CalcTqmean, three times the median in CalcExceed3TimesMedian) is modelled as the program
  computes it, rounded to a double after every operation, since rounding can move it
  across the values it is compared with.
  A discharge cell of the input is a finite reading or null (\<open>None\<close>, pandas' NaN).
\<close>

subsection \<open>Data model\<close>

datatype fl = Fin real | NaN | PInf | NInf

text \<open>A date is (year, month, day); the lexicographic order on triples is the
  chronological one.\<close>

type_synonym date = "int \<times> nat \<times> nat"

text \<open>One row of the DataFrame: the index (Date) and the four remaining columns.\<close>

record observation =
  Date :: date
  agency_cd :: string
  site_no :: int
  Discharge :: "real option"
  Quality :: "string option"

text \<open>A token of the Discharge column of the text file, before \<^verbatim>\<open>read_csv\<close> has
  applied \<^verbatim>\<open>na_values=['Eqp']\<close>: a number, the sentinel, or an empty/NA field.\<close>

datatype token = Num real | Eqp | Blank

record raw_record =
  raw_Date :: date
  raw_agency_cd :: string
  raw_site_no :: int
  raw_Discharge :: token
  raw_Quality :: "string option"

datatype py_error = IndexError | ValueError

subsection \<open>ReadData and ClipData\<close>

fun na_values :: "token \<Rightarrow> real option" where
  "na_values (Num v) = Some v"
| "na_values Eqp = None"
| "na_values Blank = None"

definition read_csv :: "raw_record list \<Rightarrow> observation list" where
  "read_csv raw = map (\<lambda>r. \<lparr>Date = raw_Date r, agency_cd = raw_agency_cd r,
       site_no = raw_site_no r, Discharge = na_values (raw_Discharge r),
       Quality = raw_Quality r\<rparr>) raw"

text \<open>\<^verbatim>\<open>DataDF['Discharge'] < 0\<close>: a comparison with NaN is False.\<close>

fun lt_zero :: "real option \<Rightarrow> bool" where
  "lt_zero None = False"
| "lt_zero (Some v) = (v < 0)"

text \<open>\<^verbatim>\<open>DataDF["Discharge"].isna().sum()\<close>\<close>

definition isna_sum :: "observation list \<Rightarrow> nat" where
  "isna_sum df = length (filter (\<lambda>r. Discharge r = None) df)"

definition ReadData :: "raw_record list \<Rightarrow> observation list \<times> nat" where
  "ReadData fileName =
     (let DataDF = read_csv fileName;
          DataDF = filter (\<lambda>r. \<not> lt_zero (Discharge r)) DataDF;
          MissingValues = isna_sum DataDF
      in (DataDF, MissingValues))"

text \<open>\<^verbatim>\<open>DataDF[startDate:endDate]\<close> on a DatetimeIndex selects the rows whose label lies
  in the closed interval from startDate to endDate.\<close>

definition loc_slice :: "observation list \<Rightarrow> date \<Rightarrow> date \<Rightarrow> observation list" where
  "loc_slice df startDate endDate = filter (\<lambda>r. startDate \<le> Date r \<and> Date r \<le> endDate) df"

definition ClipData :: "observation list \<Rightarrow> date \<Rightarrow> date \<Rightarrow> observation list \<times> nat" where
  "ClipData DataDF startDate endDate =
     (let DataDF = loc_slice DataDF startDate endDate;
          MissingValues = isna_sum DataDF
      in (DataDF, MissingValues))"

subsection \<open>Scalar arithmetic of numpy floats\<close>

text \<open>numpy's true division never raises: a zero divisor gives NaN or an infinity.\<close>

fun fl_div :: "fl \<Rightarrow> fl \<Rightarrow> fl" where
  "fl_div NaN y = NaN"
| "fl_div x NaN = NaN"
| "fl_div (Fin a) (Fin b) =
     (if b \<noteq> 0 then Fin (a / b) else if a = 0 then NaN else if 0 < a then PInf else NInf)"
| "fl_div (Fin a) y = Fin 0"
| "fl_div PInf (Fin b) = (if 0 \<le> b then PInf else NInf)"
| "fl_div NInf (Fin b) = (if 0 \<le> b then NInf else PInf)"
| "fl_div x y = NaN"

fun fl_mul :: "fl \<Rightarrow> fl \<Rightarrow> fl" where
  "fl_mul NaN y = NaN"
| "fl_mul x NaN = NaN"
| "fl_mul (Fin a) (Fin b) = Fin (a * b)"
| "fl_mul (Fin a) PInf = (if a = 0 then NaN else if 0 < a then PInf else NInf)"
| "fl_mul (Fin a) NInf = (if a = 0 then NaN else if 0 < a then NInf else PInf)"
| "fl_mul PInf (Fin b) = (if b = 0 then NaN else if 0 < b then PInf else NInf)"
| "fl_mul NInf (Fin b) = (if b = 0 then NaN else if 0 < b then NInf else PInf)"
| "fl_mul PInf PInf = PInf"
| "fl_mul NInf NInf = PInf"
| "fl_mul x y = NInf"

fun fl_add :: "fl \<Rightarrow> fl \<Rightarrow> fl" where
  "fl_add NaN y = NaN"
| "fl_add x NaN = NaN"
| "fl_add (Fin a) (Fin b) = Fin (a + b)"
| "fl_add PInf NInf = NaN"
| "fl_add NInf PInf = NaN"
| "fl_add (Fin a) y = y"
| "fl_add x y = x"

text \<open>Rounding to the nearest double, ties to even: the result has 53 significant bits.
  The range of the exponent is taken as unbounded (no overflow, no subnormal numbers).\<close>

definition rne :: "real \<Rightarrow> int" where
  "rne y =
     (let f = \<lfloor>y\<rfloor>; r = y - of_int f
      in if r < 1 / 2 then f else if 1 / 2 < r then f + 1 else if even f then f else f + 1)"

definition expo :: "real \<Rightarrow> int" where
  "expo x = \<lfloor>log 2 \<bar>x\<bar>\<rfloor>"

definition rnd :: "real \<Rightarrow> real" where
  "rnd x = (if x = 0 then 0 else of_int (rne (x / 2 powi (expo x - 52))) * 2 powi (expo x - 52))"

fun fl_rnd :: "fl \<Rightarrow> fl" where
  "fl_rnd (Fin a) = Fin (rnd a)"
| "fl_rnd x = x"

text \<open>The cells of a float64 Series are doubles: a number that is not a double stands
  for the double nearest to it.\<close>

definition float64 :: "real list \<Rightarrow> real list" where
  "float64 xs = map rnd xs"

text \<open>\<^verbatim>\<open>v > s\<close> for a finite element \<open>v\<close> of a Series and a scalar \<open>s\<close>; every
  comparison with NaN is False.\<close>

fun gt :: "real \<Rightarrow> fl \<Rightarrow> bool" where
  "gt v (Fin s) = (s < v)"
| "gt v NaN = False"
| "gt v PInf = False"
| "gt v NInf = True"

subsection \<open>Series reductions of pandas\<close>

text \<open>A Series of discharges is the list of its cells in index order.\<close>

fun dropna :: "real option list \<Rightarrow> real list" where
  "dropna [] = []"
| "dropna (None # q) = dropna q"
| "dropna (Some v # q) = v # dropna q"

text \<open>The reductions below skip nulls, as pandas does by default; they are given the
  non-null values.\<close>

definition series_mean :: "real list \<Rightarrow> fl" where
  "series_mean xs = (if xs = [] then NaN else Fin (sum_list xs / real (length xs)))"

text \<open>\<^verbatim>\<open>Series.mean()\<close> as it is computed: the values are added up in doubles, from 0 and
  in index order, and the sum is divided by their number; every operation rounds. This is
  the order of the additions for fewer than 8 values; numpy adds longer arrays in blocks,
  which can move the last bit of the sum. The properties below use of the computed mean
  only that it is a number.\<close>

definition float_mean :: "real list \<Rightarrow> fl" where
  "float_mean xs =
     (if xs = [] then NaN
      else Fin (rnd (foldl (\<lambda>s x. rnd (s + x)) 0 xs / real (length xs))))"

definition series_max :: "real list \<Rightarrow> fl" where
  "series_max xs = (case xs of [] \<Rightarrow> NaN | v # vs \<Rightarrow> Fin (fold max vs v))"

definition series_min :: "real list \<Rightarrow> fl" where
  "series_min xs = (case xs of [] \<Rightarrow> NaN | v # vs \<Rightarrow> Fin (fold min vs v))"

definition series_median :: "real list \<Rightarrow> fl" where
  "series_median xs =
     (let s = sort xs; n = length xs in
      if n = 0 then NaN
      else if odd n then Fin (s ! (n div 2))
      else Fin ((s ! (n div 2 - 1) + s ! (n div 2)) / 2))"

text \<open>\<^verbatim>\<open>Series.std()\<close>: the sample standard deviation (ddof = 1), NaN for fewer than
  two values.\<close>

definition series_std :: "real list \<Rightarrow> fl" where
  "series_std xs =
     (let n = length xs; m = sum_list xs / real n in
      if n \<le> 1 then NaN
      else Fin (sqrt (sum_list (map (\<lambda>x. (x - m)\<^sup>2) xs) / (real n - 1))))"

text \<open>\<^verbatim>\<open>Series.rolling(window=w).mean()\<close> on a Series without nulls: position \<open>i\<close>
  holds the mean of the \<open>w\<close> values ending at \<open>i\<close>, and is null while fewer than \<open>w\<close>
  values are available.\<close>

definition rolling_mean :: "nat \<Rightarrow> real list \<Rightarrow> real option list" where
  "rolling_mean w xs =
     map (\<lambda>i. if i + 1 < w then None
              else Some (sum_list (take w (drop (i + 1 - w) xs)) / real w))
         [0..<length xs]"

text \<open>\<^verbatim>\<open>scipy.stats.skew(a)\<close> with its defaults \<^verbatim>\<open>bias=True\<close> and
  \<^verbatim>\<open>nan_policy='propagate'\<close>: the ratio of the third central moment to the second
  one raised to 1.5, both moments with divisor n; 0 where the second moment is 0; NaN as
  soon as one cell is NaN, and on no data.\<close>

definition moment :: "nat \<Rightarrow> real list \<Rightarrow> real" where
  "moment k xs =
     (let m = sum_list xs / real (length xs)
      in sum_list (map (\<lambda>x. (x - m) ^ k) xs) / real (length xs))"

definition stats_skew :: "real option list \<Rightarrow> fl" where
  "stats_skew a =
     (if a = [] \<or> None \<in> set a then NaN
      else let m2 = moment 2 (dropna a); m3 = moment 3 (dropna a)
           in if m2 = 0 then Fin 0 else Fin (m3 / m2 powr (3 / 2)))"

subsection \<open>The metric functions\<close>

definition CalcTqmean :: "real option list \<Rightarrow> fl" where
  "CalcTqmean Qvalues =
     (let Qvalues = float64 (dropna Qvalues);
          T = length Qvalues;
          Tqmean = fl_div (Fin (real (length (filter (\<lambda>v. gt v (float_mean Qvalues)) Qvalues))))
                          (Fin (real T))
      in Tqmean)"

text \<open>\<^verbatim>\<open>Qvalues[i]\<close> with an integer on a date-indexed Series reads by position and
  raises IndexError out of range.\<close>

definition iloc :: "real list \<Rightarrow> nat \<Rightarrow> py_error + real" where
  "iloc xs i = (if i < length xs then Inr (xs ! i) else Inl IndexError)"

fun RBindex_loop :: "real list \<Rightarrow> nat list \<Rightarrow> real \<Rightarrow> py_error + real" where
  "RBindex_loop Qvalues [] sum_abs = Inr sum_abs"
| "RBindex_loop Qvalues (i # is) sum_abs =
     (case iloc Qvalues (i + 1) of
        Inl e \<Rightarrow> Inl e
      | Inr a \<Rightarrow>
          (case iloc Qvalues i of
             Inl e \<Rightarrow> Inl e
           | Inr b \<Rightarrow> RBindex_loop Qvalues is (sum_abs + \<bar>a - b\<bar>)))"

definition CalcRBindex :: "real option list \<Rightarrow> py_error + fl" where
  "CalcRBindex Qvalues =
     (let Qvalues = dropna Qvalues in
      case RBindex_loop Qvalues [0..<nat (int (length Qvalues) - 1)] 0 of
        Inl e \<Rightarrow> Inl e
      | Inr sum_abs \<Rightarrow> Inr (fl_div (Fin sum_abs) (Fin (sum_list Qvalues))))"

definition Calc7Q :: "real option list \<Rightarrow> fl" where
  "Calc7Q Qvalues =
     (let Qvalues = dropna Qvalues;
          val7Q = series_min (dropna (rolling_mean 7 Qvalues))
      in val7Q)"

definition CalcExceed3TimesMedian :: "real option list \<Rightarrow> nat" where
  "CalcExceed3TimesMedian Qvalues =
     (let Qvalues = float64 (dropna Qvalues);
          median3x =
            length (filter (\<lambda>v. gt v (fl_rnd (fl_mul (Fin 3) (series_median Qvalues)))) Qvalues)
      in median3x)"

subsection \<open>GetAnnualStatistics\<close>

text \<open>One row of WYDataDF, with the columns of \<^verbatim>\<open>colNames\<close> in order ('R-B Index',
  '7Q' and '3xMedian' are \<open>RB_Index\<close>, \<open>Q7\<close> and \<open>Median3x\<close>). Every cell is a number.\<close>

record annual_row =
  wy_site_no :: fl
  Mean_Flow :: fl
  Peak_Flow :: fl
  Median :: fl
  Coeff_Var :: fl
  Skew :: fl
  TQmean :: fl
  RB_Index :: fl
  Q7 :: fl
  Median3x :: fl

text \<open>\<^verbatim>\<open>range(1970,2020)\<close>\<close>

definition WYrange :: "int list" where
  "WYrange = [1970..2019]"

text \<open>\<^verbatim>\<open>DataDF['Discharge'][str(WY-1)+"-10-01":str(WY)+"-09-30"]\<close>\<close>

definition window :: "observation list \<Rightarrow> int \<Rightarrow> real option list" where
  "window DataDF WY = map Discharge (loc_slice DataDF (WY - 1, 10, 1) (WY, 9, 30))"

text \<open>The body of the loop over the water years: the row of water year \<open>WY\<close>.\<close>

definition WY_row :: "observation list \<Rightarrow> fl \<Rightarrow> int \<Rightarrow> py_error + annual_row" where
  "WY_row DataDF site WY =
     (let Q = window DataDF WY;
          mean_flow = series_mean (dropna Q)
      in case CalcRBindex Q of
           Inl e \<Rightarrow> Inl e
         | Inr rb \<Rightarrow>
             Inr \<lparr>wy_site_no = site,
                  Mean_Flow = mean_flow,
                  Peak_Flow = series_max (dropna Q),
                  Median = series_median (dropna Q),
                  Coeff_Var = fl_mul (fl_div (series_std (dropna Q)) mean_flow) (Fin 100),
                  Skew = stats_skew Q,
                  TQmean = CalcTqmean Q,
                  RB_Index = rb,
                  Q7 = Calc7Q Q,
                  Median3x = Fin (real (CalcExceed3TimesMedian Q))\<rparr>)"

fun WY_loop :: "observation list \<Rightarrow> fl \<Rightarrow> int list \<Rightarrow> py_error + annual_row list" where
  "WY_loop DataDF site [] = Inr []"
| "WY_loop DataDF site (WY # rest) =
     (case WY_row DataDF site WY of
        Inl e \<Rightarrow> Inl e
      | Inr r \<Rightarrow>
          (case WY_loop DataDF site rest of
             Inl e \<Rightarrow> Inl e
           | Inr rs \<Rightarrow> Inr (r # rs)))"

text \<open>\<^verbatim>\<open>DataDF.resample('AS-OCT').mean().index\<close>: one label, the first of October, for
  every October-to-September year from the one holding the earliest date of the frame to
  the one holding the latest.\<close>

fun water_year_start :: "date \<Rightarrow> int" where
  "water_year_start (y, m, d) = (if 10 \<le> m then y else y - 1)"

definition resample_AS_OCT_index :: "observation list \<Rightarrow> date list" where
  "resample_AS_OCT_index df =
     (case map Date df of
        [] \<Rightarrow> []
      | d # ds \<Rightarrow>
          map (\<lambda>y. (y, 10, 1)) [water_year_start (fold min ds d)..water_year_start (fold max ds d)])"

text \<open>Assigning \<^verbatim>\<open>WYDataDF.index\<close>: pandas raises ValueError (length mismatch) unless the
  new index has as many labels as the frame has rows.\<close>

definition set_index :: "'a list \<Rightarrow> date list \<Rightarrow> py_error + (date \<times> 'a) list" where
  "set_index rows idx = (if length idx \<noteq> length rows then Inl ValueError else Inr (zip idx rows))"

text \<open>\<^verbatim>\<open>DataDF['site_no'][0]\<close> reads the first row by position and raises IndexError on
  an empty frame.\<close>

definition GetAnnualStatistics :: "observation list \<Rightarrow> py_error + (date \<times> annual_row) list" where
  "GetAnnualStatistics DataDF =
     (case map site_no DataDF of
        [] \<Rightarrow> Inl IndexError
      | s # _ \<Rightarrow>
          (case WY_loop DataDF (Fin (real_of_int s)) WYrange of
             Inl e \<Rightarrow> Inl e
           | Inr WYDataDF \<Rightarrow> set_index WYDataDF (resample_AS_OCT_index DataDF)))"

subsection \<open>GetAnnualAverages\<close>

text \<open>\<^verbatim>\<open>DataFrame.mean(axis=0)\<close>: per column, the sum of the cells that are not NaN over
  their number; NaN for a column with no such cell.\<close>

definition column_mean :: "fl list \<Rightarrow> fl" where
  "column_mean col =
     (let vs = filter (\<lambda>x. x \<noteq> NaN) col
      in if vs = [] then NaN else fl_div (foldr fl_add vs (Fin 0)) (Fin (real (length vs))))"

definition GetAnnualAverages :: "(date \<times> annual_row) list \<Rightarrow> annual_row" where
  "GetAnnualAverages WYDataDF =
     (let rows = map snd WYDataDF in
      \<lparr>wy_site_no = column_mean (map wy_site_no rows),
       Mean_Flow = column_mean (map Mean_Flow rows),
       Peak_Flow = column_mean (map Peak_Flow rows),
       Median = column_mean (map Median rows),
       Coeff_Var = column_mean (map Coeff_Var rows),
       Skew = column_mean (map Skew rows),
       TQmean = column_mean (map TQmean rows),
       RB_Index = column_mean (map RB_Index rows),
       Q7 = column_mean (map Q7 rows),
       Median3x = column_mean (map Median3x rows)\<rparr>)"

subsection \<open>Reference definitions\<close>

text \<open>The path length of a sequence: the sum of the absolute differences between
  consecutive values.\<close>

fun pathlength :: "real list \<Rightarrow> real" where
  "pathlength (a # b # xs) = \<bar>b - a\<bar> + pathlength (b # xs)"
| "pathlength xs = 0"

text \<open>The means of all windows of \<open>w\<close> consecutive entries.\<close>

definition window_means :: "nat \<Rightarrow> real list \<Rightarrow> real list" where
  "window_means w xs = map (\<lambda>k. sum_list (take w (drop k xs)) / real w) [0..<length xs + 1 - w]"

text \<open>The adjusted Fisher-Pearson coefficient of skewness of a sample of size n:
  the ratio of the third moment to the second one raised to 1.5, times
  \<open>sqrt (n (n - 1)) / (n - 2)\<close>.\<close>

definition adjusted_skew :: "real list \<Rightarrow> real" where
  "adjusted_skew xs =
     (let n = real (length xs)
      in sqrt (n * (n - 1)) / (n - 2) * (moment 3 xs / moment 2 xs powr (3 / 2)))"

text \<open>The row of a water year, from its window, where nothing raises.\<close>

definition row_of :: "fl \<Rightarrow> real option list \<Rightarrow> annual_row" where
  "row_of site Q =
     \<lparr>wy_site_no = site,
      Mean_Flow = series_mean (dropna Q),
      Peak_Flow = series_max (dropna Q),
      Median = series_median (dropna Q),
      Coeff_Var = fl_mul (fl_div (series_std (dropna Q)) (series_mean (dropna Q))) (Fin 100),
      Skew = stats_skew Q,
      TQmean = CalcTqmean Q,
      RB_Index = fl_div (Fin (pathlength (dropna Q))) (Fin (sum_list (dropna Q))),
      Q7 = Calc7Q Q,
      Median3x = Fin (real (CalcExceed3TimesMedian Q))\<rparr>"

text \<open>The number of October-to-September years between the one holding the earliest
  date of a frame and the one holding its latest date.\<close>

definition wy_span :: "observation list \<Rightarrow> int" where
  "wy_span df = water_year_start (Max (Date ` set df)) - water_year_start (Min (Date ` set df))"

text \<open>\<^verbatim>\<open>WYDataDF['Skew']\<close> of a returned table.\<close>

definition Skew_column :: "py_error + (date \<times> annual_row) list \<Rightarrow> fl list" where
  "Skew_column res = (case res of Inl e \<Rightarrow> [] | Inr tab \<Rightarrow> map (Skew \<circ> snd) tab)"

text \<open>A nullable cell as a float: null is NaN.\<close>

fun cell :: "real option \<Rightarrow> fl" where
  "cell None = NaN"
| "cell (Some v) = Fin v"

subsection \<open>Example data\<close>

definition ex_raw :: "raw_record list" where
  "ex_raw =
    [\<lparr>raw_Date = (1969, 10, 1), raw_agency_cd = ''USGS'', raw_site_no = 3335000,
      raw_Discharge = Num 12, raw_Quality = Some ''A''\<rparr>,
     \<lparr>raw_Date = (1969, 10, 2), raw_agency_cd = ''USGS'', raw_site_no = 3335000,
      raw_Discharge = Eqp, raw_Quality = None\<rparr>,
     \<lparr>raw_Date = (1969, 10, 3), raw_agency_cd = ''USGS'', raw_site_no = 3335000,
      raw_Discharge = Num (- 1), raw_Quality = Some ''A''\<rparr>,
     \<lparr>raw_Date = (1970, 10, 4), raw_agency_cd = ''USGS'', raw_site_no = 3335000,
      raw_Discharge = Num 0, raw_Quality = Some ''A''\<rparr>]"

definition obs :: "date \<Rightarrow> real option \<Rightarrow> observation" where
  "obs d q = \<lparr>Date = d, agency_cd = ''USGS'', site_no = 3335000, Discharge = q,
             Quality = Some ''A''\<rparr>"

text \<open>A series from 1969-10-01 to 2019-09-30 with data in the water years 1970, 1971
  and 2019 only.\<close>

definition ex_span :: "observation list" where
  "ex_span =
     [obs (1969, 10, 1) (Some 0), obs (1969, 10, 2) (Some 0), obs (1969, 10, 3) (Some 0),
      obs (1969, 10, 4) (Some 0), obs (1970, 9, 30) (Some 5),
      obs (1970, 10, 1) None, obs (1970, 10, 2) (Some 0), obs (1970, 10, 3) (Some 0),
      obs (1970, 10, 4) (Some 0), obs (1970, 10, 5) (Some 0), obs (1971, 9, 30) (Some 5),
      obs (2019, 9, 30) (Some 2)]"

text \<open>The doubles nearest to 0.7, 0.9 and 2.7.\<close>

definition d07 :: real where
  "d07 = 6305039478318694 / 2 ^ 53"

definition d09 :: real where
  "d09 = 8106479329266893 / 2 ^ 53"

definition d27 :: real where
  "d27 = 6079859496950170 / 2 ^ 51"

section \<open>Properties\<close>

subsection \<open>ClipData\<close>

lemma loc_slice_loc_slice:
  assumes "s1 \<le> s2" and "e2 \<le> e1"
  shows "loc_slice (loc_slice df s1 e1) s2 e2 = loc_slice df s2 e2"
proof -
  have "(s1 \<le> d \<and> d \<le> e1) \<and> s2 \<le> d \<and> d \<le> e2 \<longleftrightarrow> s2 \<le> d \<and> d \<le> e2" for d :: date
    using assms by auto
  then have "filter (\<lambda>r. (s1 \<le> Date r \<and> Date r \<le> e1) \<and> s2 \<le> Date r \<and> Date r \<le> e2) df
      = filter (\<lambda>r. s2 \<le> Date r \<and> Date r \<le> e2) df"
    by (intro filter_cong) auto
  then show ?thesis
    unfolding loc_slice_def filter_filter .
qed

text \<open>On an index sorted by date, the rows of the closed interval are the contiguous
  slice between the two bounds, which is how pandas cuts it.\<close>

lemma filter_le_takeWhile:
  "sorted (map Date df) \<Longrightarrow> filter (\<lambda>r. Date r \<le> e) df = takeWhile (\<lambda>r. Date r \<le> e) df"
proof (induction df)
  case (Cons r df)
  show ?case
  proof (cases "Date r \<le> e")
    case True
    with Cons show ?thesis by simp
  next
    case False
    with Cons.prems have "\<forall>x \<in> set df. \<not> Date x \<le> e" by force
    with False show ?thesis by simp
  qed
qed simp

lemma loc_slice_sorted:
  "sorted (map Date df) \<Longrightarrow>
   loc_slice df s e = takeWhile (\<lambda>r. Date r \<le> e) (dropWhile (\<lambda>r. Date r < s) df)"
proof (induction df)
  case (Cons r df)
  show ?case
  proof (cases "Date r < s")
    case True
    then have "\<not> s \<le> Date r" by (simp only: not_le)
    with True Cons show ?thesis by (simp add: loc_slice_def)
  next
    case False
    with Cons.prems have "\<forall>x \<in> set (r # df). s \<le> Date x" by force
    then have "filter (\<lambda>x. s \<le> Date x \<and> Date x \<le> e) (r # df) = filter (\<lambda>x. Date x \<le> e) (r # df)"
      by (intro filter_cong) auto
    with False filter_le_takeWhile [OF Cons.prems, of e] show ?thesis
      by (simp add: loc_slice_def)
  qed
qed (simp add: loc_slice_def)

text \<open>
  C8. Clipping to [s1, e1] and then to a sub-range [s2, e2] gives the same rows and the
  same missing-value count as clipping the original series to [s2, e2] directly.
\<close>

theorem ClipData_subrange:
  assumes "s1 \<le> s2" and "e2 \<le> e1"
  shows "ClipData (fst (ClipData df s1 e1)) s2 e2 = ClipData df s2 e2"
  using assms by (simp add: ClipData_def Let_def loc_slice_loc_slice)

theorem ClipData_subrange_witness:
  "((1969, 10, 1) :: date) \<le> (1970, 1, 1) \<and> ((1970, 12, 31) :: date) \<le> (2019, 9, 30) \<and>
   ClipData (fst (ClipData [obs (1969, 12, 31) (Some 1), obs (1970, 1, 1) None, obs (1971, 1, 1) (Some 2)]
                    (1969, 10, 1) (2019, 9, 30))) (1970, 1, 1) (1970, 12, 31)
     = ([obs (1970, 1, 1) None], 1)"
proof -
  have s: "((1969, 10, 1) :: date) \<le> (1970, 1, 1)" and e: "((1970, 12, 31) :: date) \<le> (2019, 9, 30)"
    by simp_all
  have "ClipData [obs (1969, 12, 31) (Some 1), obs (1970, 1, 1) None, obs (1971, 1, 1) (Some 2)]
          (1970, 1, 1) (1970, 12, 31) = ([obs (1970, 1, 1) None], 1)"
    by (simp add: ClipData_def loc_slice_def isna_sum_def obs_def)
  with s e ClipData_subrange [OF s e] show ?thesis
    by simp
qed

subsection \<open>ReadData\<close>

lemma lt_zero_iff: "lt_zero x \<longleftrightarrow> (\<exists>v. x = Some v \<and> v < 0)"
  by (cases x) auto

text \<open>
  C10. ReadData removes exactly the rows whose discharge is a number below zero. Rows
  with a null discharge (NaN, or the Eqp sentinel turned into NaN by the parser) stay in
  the returned frame, are all counted in the returned number of missing values, and are
  counted again by ClipData when they lie in its range.
\<close>

theorem ReadData_keeps_null:
  "fst (ReadData raw) = filter (\<lambda>r. \<not> (\<exists>v. Discharge r = Some v \<and> v < 0)) (read_csv raw)
   \<and> (\<forall>r \<in> set (read_csv raw). Discharge r = None \<longrightarrow> r \<in> set (fst (ReadData raw)))
   \<and> snd (ReadData raw) = length (filter (\<lambda>r. Discharge r = None) (read_csv raw))
   \<and> snd (ClipData (fst (ReadData raw)) s e) =
       length (filter (\<lambda>r. Discharge r = None \<and> s \<le> Date r \<and> Date r \<le> e) (read_csv raw))"
proof -
  have keep: "(\<not> lt_zero (Discharge r) \<and> Discharge r = None) = (Discharge r = None)"
    for r :: observation
    by (auto simp: lt_zero_iff)
  have 1: "fst (ReadData raw) =
      filter (\<lambda>r. \<not> (\<exists>v. Discharge r = Some v \<and> v < 0)) (read_csv raw)"
    by (simp add: ReadData_def Let_def lt_zero_iff)
  have 2: "\<forall>r \<in> set (read_csv raw). Discharge r = None \<longrightarrow> r \<in> set (fst (ReadData raw))"
    by (simp add: 1)
  have 3: "snd (ReadData raw) = length (filter (\<lambda>r. Discharge r = None) (read_csv raw))"
    by (simp add: ReadData_def Let_def isna_sum_def keep)
  have "(\<not> lt_zero (Discharge r) \<and> (s \<le> Date r \<and> Date r \<le> e) \<and> Discharge r = None)
      = (Discharge r = None \<and> s \<le> Date r \<and> Date r \<le> e)" for r :: observation
    by (auto simp: lt_zero_iff)
  then have 4: "snd (ClipData (fst (ReadData raw)) s e) =
       length (filter (\<lambda>r. Discharge r = None \<and> s \<le> Date r \<and> Date r \<le> e) (read_csv raw))"
    by (simp add: ReadData_def ClipData_def Let_def isna_sum_def loc_slice_def)
  from 1 2 3 4 show ?thesis by blast
qed

theorem ReadData_keeps_null_witness:
  "map Date (fst (ReadData ex_raw)) = [(1969, 10, 1), (1969, 10, 2), (1970, 10, 4)]
   \<and> map Discharge (fst (ReadData ex_raw)) = [Some 12, None, Some 0]
   \<and> snd (ReadData ex_raw) = 1
   \<and> snd (ClipData (fst (ReadData ex_raw)) (1969, 10, 1) (2019, 9, 30)) = 1"
  using ReadData_keeps_null [of ex_raw "(1969, 10, 1)" "(2019, 9, 30)"]
  by (simp add: ex_raw_def read_csv_def ReadData_def ClipData_def isna_sum_def loc_slice_def Let_def)

subsection \<open>CalcRBindex\<close>

text \<open>The loop reads only positions inside the Series, so it never raises, and it
  adds up the differences of neighbours.\<close>

lemma RBindex_loop_Inr:
  "\<forall>i \<in> set is. i + 1 < length Q \<Longrightarrow>
   RBindex_loop Q is s = Inr (s + (\<Sum>i\<leftarrow>is. \<bar>Q ! (i + 1) - Q ! i\<bar>))"
  by (induction "is" arbitrary: s) (simp_all add: iloc_def)

lemma sum_consecutive_pathlength:
  "(\<Sum>i\<leftarrow>[0..<length Q - 1]. \<bar>Q ! (i + 1) - Q ! i\<bar>) = pathlength Q"
proof (induction Q rule: pathlength.induct)
  case (1 a b xs)
  have "[0..<length (a # b # xs) - 1] = 0 # map Suc [0..<length (b # xs) - 1]"
    by (simp add: upt_conv_Cons map_Suc_upt del: upt_Suc)
  then show ?case using 1 by (simp add: comp_def del: upt_Suc)
qed simp_all

lemma RBindex_loop_pathlength:
  "RBindex_loop Q [0..<nat (int (length Q) - 1)] 0 = Inr (pathlength Q)"
proof -
  have "\<forall>i \<in> set [0..<length Q - 1]. i + 1 < length Q"
    by auto
  from RBindex_loop_Inr [OF this, of 0]
  have "RBindex_loop Q [0..<length Q - 1] 0 = Inr (pathlength Q)"
    by (simp only: sum_consecutive_pathlength add_0)
  moreover have "nat (int (length Q) - 1) = length Q - 1"
    by simp
  ultimately show ?thesis by (simp only:)
qed

lemma CalcRBindex_eq:
  "CalcRBindex q = Inr (fl_div (Fin (pathlength (dropna q))) (Fin (sum_list (dropna q))))"
  by (simp only: CalcRBindex_def Let_def RBindex_loop_pathlength sum.case)

lemma pathlength_nonneg: "0 \<le> pathlength xs"
  by (induction xs rule: pathlength.induct) simp_all

text \<open>
  C2, as the code has it. CalcRBindex never raises and returns the path length of the
  null-removed sequence (the sum of the absolute differences of neighbours, the sequence
  taken as contiguous) divided by the sum of the non-null values, the division being
  numpy's: the quotient where the sum is not zero. A window with a single non-null value
  yields 0 when that value is not zero and NaN when it is zero. [10, 20] yields 1/3.
\<close>

theorem CalcRBindex_pathlength_over_sum:
  "CalcRBindex q = Inr (fl_div (Fin (pathlength (dropna q))) (Fin (sum_list (dropna q))))
   \<and> (sum_list (dropna q) \<noteq> 0 \<longrightarrow>
        CalcRBindex q = Inr (Fin (pathlength (dropna q) / sum_list (dropna q))))
   \<and> (\<forall>v. dropna q = [v] \<longrightarrow> CalcRBindex q = Inr (if v = 0 then NaN else Fin 0))
   \<and> CalcRBindex [Some 10, Some 20] = Inr (Fin (1 / 3))"
  by (simp add: CalcRBindex_eq)

theorem CalcRBindex_pathlength_over_sum_witness:
  "sum_list (dropna [Some 10, None, Some 20]) \<noteq> 0
   \<and> CalcRBindex [Some 10, None, Some 20] = Inr (Fin (1 / 3))
   \<and> dropna [None, Some 5] = [5]
   \<and> CalcRBindex [None, Some 5] = Inr (Fin 0)"
  using CalcRBindex_pathlength_over_sum [of "[Some 10, None, Some 20]"]
    CalcRBindex_pathlength_over_sum [of "[None, Some 5]"]
  by simp

text \<open>The claim as the specification words it (0 for every single-observation
  window) fails for a single observation of 0: 0.0 / 0.0 is NaN.\<close>

theorem CalcRBindex_single_zero_counterexample:
  "CalcRBindex [Some 0] = Inr NaN \<and> CalcRBindex [Some 0] \<noteq> Inr (Fin 0)"
  by (simp add: CalcRBindex_def iloc_def)

subsection \<open>Rounding to doubles\<close>

text \<open>A number between two neighbouring powers of two is rounded on the grid of that
  binade; a number on the grid is left as it is.\<close>

lemma expo_eq:
  assumes "2 powi e \<le> \<bar>x\<bar>" and "\<bar>x\<bar> < 2 powi (e + 1)"
  shows "expo x = e"
proof -
  have "(0::real) < 2 powi e" by simp
  with assms(1) have pos: "0 < \<bar>x\<bar>" by linarith
  have "(2::real) powr of_int e = 2 powi e" "(2::real) powr (of_int e + 1) = 2 powi (e + 1)"
    using powr_real_of_int' [of "2::real" e] powr_real_of_int' [of "2::real" "e + 1"] by simp_all
  with assms have "2 powr of_int e \<le> \<bar>x\<bar> \<and> \<bar>x\<bar> < 2 powr (of_int e + 1)" by simp
  then show ?thesis
    unfolding expo_def using floor_log_eq_powr_iff [of "\<bar>x\<bar>" 2 e] pos by simp
qed

lemma rnd_eval:
  assumes "2 powi e \<le> \<bar>x\<bar>" and "\<bar>x\<bar> < 2 powi (e + 1)"
  shows "rnd x = of_int (rne (x / 2 powi (e - 52))) * 2 powi (e - 52)"
proof -
  have "(0::real) < 2 powi e" by simp
  with assms(1) have "0 < \<bar>x\<bar>" by linarith
  then have "x \<noteq> 0" by simp
  then show ?thesis by (simp add: rnd_def expo_eq [OF assms])
qed

lemma rne_of_int: "rne (of_int k) = k"
  by (simp add: rne_def)

lemma rnd_exact:
  assumes "2 powi e \<le> \<bar>x\<bar>" and "\<bar>x\<bar> < 2 powi (e + 1)" and "x / 2 powi (e - 52) = of_int k"
  shows "rnd x = x"
proof -
  have "rnd x = of_int k * 2 powi (e - 52)"
    by (simp only: rnd_eval [OF assms(1,2)] assms(3) rne_of_int)
  also have "\<dots> = x / 2 powi (e - 52) * 2 powi (e - 52)" by (simp only: assms(3))
  also have "\<dots> = x" by simp
  finally show ?thesis .
qed








lemma float64_doubles: "\<forall>v \<in> set xs. rnd v = v \<Longrightarrow> float64 xs = xs"
  by (simp add: float64_def map_idI)

subsection \<open>CalcTqmean\<close>

lemma float_mean_3: "float_mean [a, b, c] = Fin (rnd (rnd (rnd (rnd a + b) + c) / 3))"
  by (simp add: float_mean_def)


lemma rnd_d07: "rnd d07 = d07"
  unfolding d07_def by (rule rnd_exact [where e = "- 1" and k = 6305039478318694]) simp_all

lemma rnd_7_10: "rnd (7 / 10) = d07"
proof -
  have "rnd (7 / 10) = of_int (rne ((7 / 10) / 2 powi (- 1 - 52))) * 2 powi (- 1 - 52)"
    by (rule rnd_eval) simp_all
  also have "(7 / 10) / 2 powi (- 1 - 52) = (31525197391593472 / 5 :: real)"
    by simp
  also have "rne (31525197391593472 / 5) = 6305039478318694"
    by (simp add: rne_def)
  finally show ?thesis by (simp add: d07_def)
qed

lemma rnd_d07_d07: "rnd (d07 + d07) = 2 * d07"
proof -
  have "rnd (d07 + d07) = d07 + d07"
    unfolding d07_def by (rule rnd_exact [where e = 0 and k = 6305039478318694]) simp_all
  then show ?thesis by simp
qed

lemma rnd_3_d07: "rnd (2 * d07 + d07) = 4728779608739020 / 2 ^ 51"
proof -
  have "rnd (2 * d07 + d07) = of_int (rne ((2 * d07 + d07) / 2 powi (1 - 52))) * 2 powi (1 - 52)"
    by (rule rnd_eval) (simp_all add: d07_def)
  also have "(2 * d07 + d07) / 2 powi (1 - 52) = (9457559217478041 / 2 :: real)"
    by (simp add: d07_def)
  also have "rne (9457559217478041 / 2) = 4728779608739020"
    by (simp add: rne_def)
  finally show ?thesis by simp
qed

lemma rnd_mean_d07: "rnd (4728779608739020 / 2 ^ 51 / 3) = 6305039478318693 / 2 ^ 53"
proof -
  have "rnd (4728779608739020 / 2 ^ 51 / 3)
      = of_int (rne ((4728779608739020 / 2 ^ 51 / 3) / 2 powi (- 1 - 52))) * 2 powi (- 1 - 52)"
    by (rule rnd_eval) simp_all
  also have "(4728779608739020 / 2 ^ 51 / 3) / 2 powi (- 1 - 52) = (18915118434956080 / 3 :: real)"
    by simp
  also have "rne (18915118434956080 / 3) = 6305039478318693"
    by (simp add: rne_def)
  finally show ?thesis by simp
qed

lemma float_mean_d07: "float_mean [d07, d07, d07] = Fin (6305039478318693 / 2 ^ 53)"
  by (simp only: float_mean_3 rnd_d07 rnd_d07_d07 rnd_3_d07 rnd_mean_d07)


text \<open>Cells given in decimal stand for the nearest doubles.\<close>

lemma CalcTqmean_decimal:
  "CalcTqmean [Some (7 / 10), Some (7 / 10), Some (7 / 10)] = Fin 1"
proof -
  have "float64 [7 / 10, 7 / 10, 7 / 10] = [d07, d07, d07]"
    by (simp add: float64_def rnd_7_10)
  moreover have "(6305039478318693 / 2 ^ 53 :: real) < d07"
    by (simp add: d07_def)
  ultimately show ?thesis
    by (simp add: CalcTqmean_def float_mean_d07)
qed





subsection \<open>Calc7Q\<close>

lemma dropna_append: "dropna (xs @ ys) = dropna xs @ dropna ys"
  by (induction xs rule: dropna.induct) simp_all

lemma dropna_map_None: "dropna (map (\<lambda>i. None) xs) = []"
  by (induction xs) simp_all

lemma dropna_map_Some_f: "dropna (map (\<lambda>i. Some (f i)) xs) = map f xs"
  by (induction xs) simp_all

lemma dropna_rolling_mean:
  assumes "0 < w"
  shows "dropna (rolling_mean w xs) = window_means w xs"
proof (cases "w \<le> length xs")
  case False
  then have "\<forall>i \<in> set [0..<length xs]. i + 1 < w" by auto
  then have "rolling_mean w xs = map (\<lambda>i. None) [0..<length xs]"
    unfolding rolling_mean_def by (intro map_cong) auto
  moreover have "length xs + 1 - w = 0" using False by simp
  ultimately show ?thesis
    by (simp add: dropna_map_None window_means_def)
next
  case True
  have split: "[0..<length xs] = [0..<w - 1] @ map (\<lambda>k. k + (w - 1)) [0..<length xs + 1 - w]"
  proof -
    have len: "length xs = (w - 1) + (length xs + 1 - w)"
      using True assms by simp
    have "[0..<(w - 1) + (length xs + 1 - w)] = [0..<w - 1] @ [w - 1..<(w - 1) + (length xs + 1 - w)]"
      by (rule upt_add_eq_append) simp
    moreover have "[w - 1..<(w - 1) + (length xs + 1 - w)] = map (\<lambda>k. k + (w - 1)) [0..<length xs + 1 - w]"
      by (simp add: map_add_upt add.commute)
    ultimately show ?thesis using len by simp
  qed
  have a: "map (\<lambda>i. if i + 1 < w then None
              else Some (sum_list (take w (drop (i + 1 - w) xs)) / real w)) [0..<w - 1]
        = map (\<lambda>i. None) [0..<w - 1]"
    by (intro map_cong) auto
  have b: "map (\<lambda>i. if i + 1 < w then None
              else Some (sum_list (take w (drop (i + 1 - w) xs)) / real w))
             (map (\<lambda>k. k + (w - 1)) [0..<length xs + 1 - w])
        = map (\<lambda>k. Some (sum_list (take w (drop k xs)) / real w)) [0..<length xs + 1 - w]"
    using assms by (simp add: comp_def)
  show ?thesis
    unfolding rolling_mean_def split map_append dropna_append a b
    by (simp add: dropna_map_None dropna_map_Some_f window_means_def)
qed

lemma series_min_Min: "xs \<noteq> [] \<Longrightarrow> series_min xs = Fin (Min (set xs))"
proof (cases xs)
  case (Cons v vs)
  then show ?thesis
    using Min.set_eq_fold [of v vs] by (simp add: series_min_def)
qed simp

lemma window_means_Nil: "window_means w xs = [] \<longleftrightarrow> length xs < w"
  by (auto simp: window_means_def)

text \<open>
  C3. Calc7Q returns the least of the means of all windows of 7 consecutive entries of
  the null-removed sequence; shorter windows give no candidate, and with fewer than 7
  non-null values the result is NaN. [1,2,3,4,5,6,7] yields 4.
\<close>

theorem Calc7Q_min_window_mean:
  "Calc7Q q =
     (if length (dropna q) < 7 then NaN
      else Fin (Min ((\<lambda>k. sum_list (take 7 (drop k (dropna q))) / 7) ` {k. k + 7 \<le> length (dropna q)})))
   \<and> Calc7Q [Some 1, Some 2, Some 3, Some 4, Some 5, Some 6, Some 7] = Fin 4"
proof -
  have eq: "Calc7Q q = series_min (window_means 7 (dropna q))" for q
    by (simp add: Calc7Q_def Let_def dropna_rolling_mean)
  have set: "set (window_means 7 xs) = (\<lambda>k. sum_list (take 7 (drop k xs)) / 7) ` {k. k + 7 \<le> length xs}" for xs
  proof -
    have "{0..<length xs + 1 - 7} = {k. k + 7 \<le> length xs}" by auto
    then show ?thesis by (simp add: window_means_def)
  qed
  have 1: "Calc7Q q =
     (if length (dropna q) < 7 then NaN
      else Fin (Min ((\<lambda>k. sum_list (take 7 (drop k (dropna q))) / 7) ` {k. k + 7 \<le> length (dropna q)})))"
  proof (cases "length (dropna q) < 7")
    case True
    then have "window_means 7 (dropna q) = []" by (simp add: window_means_Nil)
    with True show ?thesis by (simp add: eq series_min_def)
  next
    case False
    then have "window_means 7 (dropna q) \<noteq> []" by (simp add: window_means_Nil)
    from series_min_Min [OF this] False show ?thesis by (simp only: eq set if_False)
  qed
  have 2: "Calc7Q [Some 1, Some 2, Some 3, Some 4, Some 5, Some 6, Some 7] = Fin 4"
    by (simp add: eq window_means_def series_min_def)
  from 1 2 show ?thesis ..
qed

theorem Calc7Q_min_window_mean_witness:
  "Calc7Q [Some 1, None, Some 2] = NaN"
  using Calc7Q_min_window_mean [of "[Some 1, None, Some 2]"]
  by simp

subsection \<open>CalcExceed3TimesMedian\<close>







lemma rnd_9_10: "rnd (9 / 10) = d09"
proof -
  have "rnd (9 / 10) = of_int (rne ((9 / 10) / 2 powi (- 1 - 52))) * 2 powi (- 1 - 52)"
    by (rule rnd_eval) simp_all
  also have "(9 / 10) / 2 powi (- 1 - 52) = (40532396646334464 / 5 :: real)"
    by simp
  also have "rne (40532396646334464 / 5) = 8106479329266893"
    by (simp add: rne_def)
  finally show ?thesis by (simp add: d09_def)
qed

lemma rnd_27_10: "rnd (27 / 10) = d27"
proof -
  have "rnd (27 / 10) = of_int (rne ((27 / 10) / 2 powi (1 - 52))) * 2 powi (1 - 52)"
    by (rule rnd_eval) simp_all
  also have "(27 / 10) / 2 powi (1 - 52) = (30399297484750848 / 5 :: real)"
    by simp
  also have "rne (30399297484750848 / 5) = 6079859496950170"
    by (simp add: rne_def)
  finally show ?thesis by (simp add: d27_def)
qed

lemma rnd_3_d09: "rnd (3 * d09) = d27"
proof -
  have "rnd (3 * d09) = of_int (rne ((3 * d09) / 2 powi (1 - 52))) * 2 powi (1 - 52)"
    by (rule rnd_eval) (simp_all add: d09_def)
  also have "(3 * d09) / 2 powi (1 - 52) = (24319437987800679 / 4 :: real)"
    by (simp add: d09_def)
  also have "rne (24319437987800679 / 4) = 6079859496950170"
    by (simp add: rne_def)
  finally show ?thesis by (simp add: d27_def)
qed


lemma series_median_d09: "series_median [d09, d09, d09, d27] = Fin d09"
proof -
  have "d09 \<le> d27" by (simp add: d09_def d27_def)
  then have "sort [d09, d09, d09, d27] = [d09, d09, d09, d27]"
    by (simp add: insort_is_Cons)
  then show ?thesis by (simp add: series_median_def Let_def)
qed

text \<open>Cells given in decimal stand for the nearest doubles.\<close>

lemma CalcExceed3TimesMedian_decimal:
  "CalcExceed3TimesMedian [Some (9 / 10), Some (9 / 10), Some (9 / 10), Some (27 / 10)] = 0"
proof -
  have "float64 [9 / 10, 9 / 10, 9 / 10, 27 / 10] = [d09, d09, d09, d27]"
    by (simp add: float64_def rnd_9_10 rnd_27_10)
  moreover have "d09 < d27"
    by (simp add: d09_def d27_def)
  ultimately show ?thesis
    by (simp add: CalcExceed3TimesMedian_def series_median_d09 rnd_3_d09)
qed





subsection \<open>GetAnnualAverages\<close>

lemma column_mean_single: "column_mean [x] = x"
  by (cases x) (simp_all add: column_mean_def)

lemma GetAnnualAverages_single: "GetAnnualAverages [(d, r)] = r"
  by (simp add: GetAnnualAverages_def column_mean_single)

lemma filter_cells: "filter (\<lambda>x. x \<noteq> NaN) (map cell c) = map Fin (dropna c)"
  by (induction c rule: dropna.induct) simp_all

lemma foldr_fl_add_Fin: "foldr fl_add (map Fin xs) (Fin 0) = Fin (sum_list xs)"
  by (induction xs) simp_all

lemma column_mean_skipna: "column_mean (map cell c) = series_mean (dropna c)"
  by (simp add: column_mean_def filter_cells foldr_fl_add_Fin series_mean_def)

text \<open>
  C9. Every cell of the result of GetAnnualAverages is the mean of its column with the
  NaN cells skipped: for a column of numbers and nulls, the arithmetic mean of the
  numbers. For a table of one row the result is that row.
\<close>

theorem GetAnnualAverages_one_row:
  "GetAnnualAverages [(d, r)] = r
   \<and> GetAnnualAverages tab =
       \<lparr>wy_site_no = column_mean (map (wy_site_no \<circ> snd) tab),
        Mean_Flow = column_mean (map (Mean_Flow \<circ> snd) tab),
        Peak_Flow = column_mean (map (Peak_Flow \<circ> snd) tab),
        Median = column_mean (map (Median \<circ> snd) tab),
        Coeff_Var = column_mean (map (Coeff_Var \<circ> snd) tab),
        Skew = column_mean (map (Skew \<circ> snd) tab),
        TQmean = column_mean (map (TQmean \<circ> snd) tab),
        RB_Index = column_mean (map (RB_Index \<circ> snd) tab),
        Q7 = column_mean (map (Q7 \<circ> snd) tab),
        Median3x = column_mean (map (Median3x \<circ> snd) tab)\<rparr>
   \<and> column_mean (map cell c) = series_mean (dropna c)"
  by (simp add: GetAnnualAverages_single column_mean_skipna) (simp add: GetAnnualAverages_def)

subsection \<open>GetAnnualStatistics\<close>

text \<open>No row of the loop raises, so the function fails only on an empty frame and in
  the assignment of the index.\<close>

lemma WY_row_eq: "WY_row DataDF site WY = Inr (row_of site (window DataDF WY))"
  by (simp add: WY_row_def row_of_def Let_def CalcRBindex_eq)

lemma WY_loop_eq:
  "WY_loop DataDF site ws = Inr (map (\<lambda>WY. row_of site (window DataDF WY)) ws)"
  by (induction ws) (simp_all add: WY_row_eq)

lemma length_WYrange: "length WYrange = 50"
  by (simp add: WYrange_def)

lemma WYrange_nth:
  assumes "i < 50"
  shows "WYrange ! i = 1970 + int i"
proof -
  have "1970 + int i \<le> 2019" using assms by simp
  then show ?thesis unfolding WYrange_def by (rule nth_upto)
qed

lemma fold_min_Min: "fold min ds (d :: date) = Min (set (d # ds))"
  by (simp only: Min.set_eq_fold)

lemma fold_max_Max: "fold max ds (d :: date) = Max (set (d # ds))"
  by (simp only: Max.set_eq_fold)

lemma resample_AS_OCT_index_eq:
  assumes "df \<noteq> []"
  shows "resample_AS_OCT_index df =
     map (\<lambda>y. (y, 10, 1)) [water_year_start (Min (Date ` set df))..water_year_start (Max (Date ` set df))]"
proof -
  from assms obtain r rs where df: "df = r # rs" by (cases df) auto
  have "resample_AS_OCT_index df =
     map (\<lambda>y. (y, 10, 1)) [water_year_start (fold min (map Date rs) (Date r))..
                           water_year_start (fold max (map Date rs) (Date r))]"
    by (simp add: resample_AS_OCT_index_def df)
  also have "fold min (map Date rs) (Date r) = Min (Date ` set df)"
    unfolding fold_min_Min df by simp
  also have "fold max (map Date rs) (Date r) = Max (Date ` set df)"
    unfolding fold_max_Max df by simp
  finally show ?thesis .
qed

lemma length_resample: "df \<noteq> [] \<Longrightarrow> length (resample_AS_OCT_index df) = nat (wy_span df + 1)"
  by (simp add: resample_AS_OCT_index_eq wy_span_def)

lemma GetAnnualStatistics_eq:
  "GetAnnualStatistics df =
    (if df = [] then Inl IndexError
     else if wy_span df \<noteq> 49 then Inl ValueError
     else Inr (zip (resample_AS_OCT_index df)
                   (map (\<lambda>WY. row_of (Fin (real_of_int (site_no (hd df)))) (window df WY)) WYrange)))"
proof (cases df)
  case Nil
  then show ?thesis by (simp add: GetAnnualStatistics_def)
next
  case (Cons r rs)
  then have ne: "df \<noteq> []" by simp
  have "0 \<le> wy_span df"
  proof -
    have "Min (Date ` set df) \<le> Max (Date ` set df)"
      using ne by (intro Max_ge Min_in) simp_all
    then show ?thesis
      unfolding wy_span_def
      by (cases "Min (Date ` set df)"; cases "Max (Date ` set df)") (auto split: if_splits)
  qed
  then have "length (resample_AS_OCT_index df) = 50 \<longleftrightarrow> wy_span df = 49"
    using length_resample [OF ne] by auto
  then show ?thesis
    using Cons by (simp add: GetAnnualStatistics_def WY_loop_eq set_index_def length_WYrange)
qed

lemma wy_span_ex: "wy_span ex_span = 49"
  by (simp add: wy_span_def ex_span_def obs_def)

lemma ex_span_windows:
  "window ex_span 1970 = [Some 0, Some 0, Some 0, Some 0, Some 5]"
  "window ex_span 1971 = [None, Some 0, Some 0, Some 0, Some 0, Some 5]"
  by (simp_all add: window_def loc_slice_def ex_span_def obs_def)

lemma GetAnnualStatistics_rows:
  assumes "GetAnnualStatistics DataDF = Inr tab"
  shows "DataDF \<noteq> [] \<and> wy_span DataDF = 49 \<and> length tab = 50
     \<and> map snd tab = map (\<lambda>WY. row_of (Fin (real_of_int (site_no (hd DataDF)))) (window DataDF WY)) WYrange"
proof -
  from assms have ne: "DataDF \<noteq> []" and span: "wy_span DataDF = 49"
    by (auto simp: GetAnnualStatistics_eq split: if_splits)
  have len_idx: "length (resample_AS_OCT_index DataDF) = 50"
    using length_resample [OF ne] span by simp
  from assms ne span have tab: "tab = zip (resample_AS_OCT_index DataDF)
     (map (\<lambda>WY. row_of (Fin (real_of_int (site_no (hd DataDF)))) (window DataDF WY)) WYrange)"
    by (simp add: GetAnnualStatistics_eq)
  have "length tab = 50" unfolding tab by (simp add: len_idx length_WYrange)
  moreover have "map snd tab = map (\<lambda>WY. row_of (Fin (real_of_int (site_no (hd DataDF)))) (window DataDF WY)) WYrange"
    unfolding tab by (rule map_snd_zip) (simp add: len_idx length_WYrange)
  ultimately show ?thesis using ne span by blast
qed

lemma Skew_nth:
  assumes "GetAnnualStatistics DataDF = Inr tab" and "i < 50"
  shows "Skew (snd (tab ! i)) = stats_skew (window DataDF (1970 + int i))"
proof -
  from GetAnnualStatistics_rows [OF assms(1)]
  have len: "length tab = 50"
    and rows: "map snd tab = map (\<lambda>WY. row_of (Fin (real_of_int (site_no (hd DataDF)))) (window DataDF WY)) WYrange"
    by blast+
  have "snd (tab ! i) = map snd tab ! i" using assms(2) len by simp
  also have "\<dots> = row_of (Fin (real_of_int (site_no (hd DataDF)))) (window DataDF (1970 + int i))"
    unfolding rows using assms(2) by (simp add: length_WYrange WYrange_nth)
  finally show ?thesis by (simp add: row_of_def)
qed

lemma ex_span_Inr: "\<exists>tab. GetAnnualStatistics ex_span = Inr tab"
  using wy_span_ex by (simp add: GetAnnualStatistics_eq) (simp add: ex_span_def)

text \<open>
  C1, as the code has it. On a series with at least one observation whose earliest and
  latest dates lie 49 October-to-September years apart (as they do in a series clipped to
  1969-10-01 .. 2019-09-30 that has data in the first and in the last of these years),
  GetAnnualStatistics returns a table of exactly 50 rows, whatever the density of the
  data; row i, labelled with the first of October of the i-th year of the series, is
  computed over exactly the observations dated from (1970 + i - 1)-10-01 to
  (1970 + i)-09-30 inclusive.
\<close>

theorem GetAnnualStatistics_fifty_rows:
  assumes ne: "DataDF \<noteq> []" and span: "wy_span DataDF = 49"
  shows "\<exists>tab. GetAnnualStatistics DataDF = Inr tab \<and> length tab = 50
           \<and> (\<forall>i < 50.
                 fst (tab ! i) = (water_year_start (Min (Date ` set DataDF)) + int i, 10, 1)
               \<and> snd (tab ! i) =
                   row_of (Fin (real_of_int (site_no (hd DataDF))))
                     (map Discharge
                        (filter (\<lambda>r. (1970 + int i - 1, 10, 1) \<le> Date r \<and> Date r \<le> (1970 + int i, 9, 30))
                           DataDF)))"
proof -
  let ?rows = "map (\<lambda>WY. row_of (Fin (real_of_int (site_no (hd DataDF)))) (window DataDF WY)) WYrange"
  let ?idx = "resample_AS_OCT_index DataDF"
  have len_idx: "length ?idx = 50"
    using length_resample [OF ne] span by simp
  have len_rows: "length ?rows = 50"
    by (simp add: length_WYrange)
  have "fst (zip ?idx ?rows ! i) = (water_year_start (Min (Date ` set DataDF)) + int i, 10, 1)
      \<and> snd (zip ?idx ?rows ! i) =
           row_of (Fin (real_of_int (site_no (hd DataDF))))
             (map Discharge
                (filter (\<lambda>r. (1970 + int i - 1, 10, 1) \<le> Date r \<and> Date r \<le> (1970 + int i, 9, 30))
                   DataDF))" if i: "i < 50" for i
  proof -
    have "water_year_start (Min (Date ` set DataDF)) + int i \<le> water_year_start (Max (Date ` set DataDF))"
      using span i by (simp add: wy_span_def)
    then have "?idx ! i = (water_year_start (Min (Date ` set DataDF)) + int i, 10, 1)"
      using i len_idx by (simp add: resample_AS_OCT_index_eq [OF ne])
    moreover have "?rows ! i = row_of (Fin (real_of_int (site_no (hd DataDF))))
             (map Discharge
                (filter (\<lambda>r. (1970 + int i - 1, 10, 1) \<le> Date r \<and> Date r \<le> (1970 + int i, 9, 30))
                   DataDF))"
      using i by (simp add: length_WYrange WYrange_nth window_def loc_slice_def)
    ultimately show ?thesis
      using i len_idx len_rows by simp
  qed
  then show ?thesis
    using ne span len_idx len_rows by (simp add: GetAnnualStatistics_eq)
qed

theorem GetAnnualStatistics_fifty_rows_witness:
  "ex_span \<noteq> [] \<and> wy_span ex_span = 49
   \<and> (\<exists>tab. GetAnnualStatistics ex_span = Inr tab \<and> length tab = 50
          \<and> fst (tab ! 0) = (1969, 10, 1)
          \<and> snd (tab ! 0) = row_of (Fin 3335000) [Some 0, Some 0, Some 0, Some 0, Some 5])"
proof -
  have ne: "ex_span \<noteq> []" by (simp add: ex_span_def)
  have mn: "Min (Date ` set ex_span) = (1969, 10, 1)"
    by (simp add: ex_span_def obs_def)
  have w: "map Discharge (filter (\<lambda>r. (1970 + int 0 - 1, 10, 1) \<le> Date r \<and> Date r \<le> (1970 + int 0, 9, 30)) ex_span)
      = [Some 0, Some 0, Some 0, Some 0, Some 5]"
    by (simp add: ex_span_def obs_def)
  have s: "site_no (hd ex_span) = 3335000"
    by (simp add: ex_span_def obs_def)
  from GetAnnualStatistics_fifty_rows [OF ne wy_span_ex]
  obtain tab where tab: "GetAnnualStatistics ex_span = Inr tab" "length tab = 50"
    "\<forall>i < 50. fst (tab ! i) = (water_year_start (Min (Date ` set ex_span)) + int i, 10, 1)
               \<and> snd (tab ! i) =
                   row_of (Fin (real_of_int (site_no (hd ex_span))))
                     (map Discharge
                        (filter (\<lambda>r. (1970 + int i - 1, 10, 1) \<le> Date r \<and> Date r \<le> (1970 + int i, 9, 30))
                           ex_span))"
    by blast
  from tab(3) have "fst (tab ! 0) = (water_year_start (Min (Date ` set ex_span)) + int 0, 10, 1)
               \<and> snd (tab ! 0) =
                   row_of (Fin (real_of_int (site_no (hd ex_span))))
                     (map Discharge
                        (filter (\<lambda>r. (1970 + int 0 - 1, 10, 1) \<le> Date r \<and> Date r \<le> (1970 + int 0, 9, 30))
                           ex_span))"
    by simp
  then have "fst (tab ! 0) = (1969, 10, 1)
     \<and> snd (tab ! 0) = row_of (Fin 3335000) [Some 0, Some 0, Some 0, Some 0, Some 5]"
    unfolding w s mn by simp
  with tab ne wy_span_ex show ?thesis by blast
qed

text \<open>A series of one observation has at least one observation, and no table is
  returned for it: the new index has one label for 50 rows, and the assignment of the
  index raises ValueError.\<close>

theorem GetAnnualStatistics_single_observation_counterexample:
  "GetAnnualStatistics [obs (2000, 1, 1) (Some 1)] = Inl ValueError"
  by (simp add: GetAnnualStatistics_eq wy_span_def obs_def)

subsection \<open>The Skew column\<close>

lemma powr_three_halves: "0 \<le> x \<Longrightarrow> x powr (3 / 2) = x * sqrt x"
proof -
  assume x: "0 \<le> x"
  have "x powr (3 / 2) = x powr (1 + 1 / 2)" by simp
  also have "\<dots> = x powr 1 * x powr (1 / 2)" by (rule powr_add)
  also have "\<dots> = x * sqrt x" using x by (simp add: powr_half_sqrt)
  finally show ?thesis .
qed

lemma moments_ex:
  "moment 2 [0, 0, 0, 0, 5] = 4" "moment 3 [0, 0, 0, 0, 5] = 12"
  by (simp_all add: moment_def power2_eq_square power3_eq_cube)

lemma four_powr: "(4::real) powr (3 / 2) = 8"
  by (simp add: powr_three_halves)

lemma stats_skew_ex: "stats_skew [Some 0, Some 0, Some 0, Some 0, Some 5] = Fin (3 / 2)"
  by (simp add: stats_skew_def moments_ex four_powr)

lemma adjusted_skew_ex: "adjusted_skew [0, 0, 0, 0, 5] = sqrt 5"
proof -
  have "sqrt 20 = sqrt (4 * 5)" by simp
  also have "\<dots> = 2 * sqrt 5" by (simp only: real_sqrt_mult real_sqrt_four)
  finally have "sqrt 20 = 2 * sqrt 5" .
  then show ?thesis
    by (simp add: adjusted_skew_def moments_ex four_powr)
qed

lemma sqrt5_neq: "Fin (3 / 2) \<noteq> Fin (sqrt 5)"
proof
  assume "Fin (3 / 2) = Fin (sqrt 5)"
  then have e: "sqrt 5 = 3 / 2" by simp
  have "(sqrt 5)\<^sup>2 = (5::real)" by simp
  then have "(3 / 2)\<^sup>2 = (5::real)" unfolding e .
  then show False by (simp add: power2_eq_square)
qed

text \<open>
  C4, as the code has it. The Skew cell of a water year is what scipy.stats.skew returns
  with its defaults on the window: for a window with data, without a null discharge and
  with a variance that is not zero, the biased Fisher-Pearson coefficient, the third
  central moment over the second one raised to 1.5, both moments with divisor n.
\<close>

theorem Skew_biased_coefficient:
  assumes "GetAnnualStatistics DataDF = Inr tab" and "i < 50"
    and "window DataDF (1970 + int i) \<noteq> []"
    and "None \<notin> set (window DataDF (1970 + int i))"
    and "moment 2 (dropna (window DataDF (1970 + int i))) \<noteq> 0"
  shows "Skew (snd (tab ! i)) =
          Fin (moment 3 (dropna (window DataDF (1970 + int i)))
               / moment 2 (dropna (window DataDF (1970 + int i))) powr (3 / 2))"
  unfolding Skew_nth [OF assms(1,2)] using assms(3-5) by (simp add: stats_skew_def)

theorem Skew_biased_coefficient_witness:
  "\<exists>tab. GetAnnualStatistics ex_span = Inr tab \<and> (0::nat) < 50
     \<and> window ex_span 1970 \<noteq> [] \<and> None \<notin> set (window ex_span 1970)
     \<and> moment 2 (dropna (window ex_span 1970)) \<noteq> 0
     \<and> Skew (snd (tab ! 0)) = Fin (3 / 2)"
proof -
  from ex_span_Inr obtain tab where tab: "GetAnnualStatistics ex_span = Inr tab" ..
  have 0: "(0::nat) < 50" by simp
  have w: "window ex_span (1970 + int 0) \<noteq> []" "None \<notin> set (window ex_span (1970 + int 0))"
    "moment 2 (dropna (window ex_span (1970 + int 0))) \<noteq> 0"
    by (simp_all add: ex_span_windows moments_ex)
  from Skew_biased_coefficient [OF tab 0 w] have "Skew (snd (tab ! 0)) = Fin (3 / 2)"
    by (simp add: ex_span_windows moments_ex four_powr)
  then show ?thesis
    using tab by (simp add: ex_span_windows moments_ex)
qed

text \<open>The adjusted coefficient differs: for the window 0, 0, 0, 0, 5 the code gives
  3/2 and the adjusted coefficient is the square root of 5; and a window with the same
  five values and one null gives NaN.\<close>

theorem Skew_adjusted_counterexample:
  "Skew_column (GetAnnualStatistics ex_span) ! 0 = Fin (3 / 2)
   \<and> dropna (window ex_span 1970) = [0, 0, 0, 0, 5]
   \<and> adjusted_skew [0, 0, 0, 0, 5] = sqrt 5
   \<and> Fin (3 / 2) \<noteq> Fin (sqrt 5)
   \<and> Skew_column (GetAnnualStatistics ex_span) ! 1 = NaN
   \<and> dropna (window ex_span 1971) = [0, 0, 0, 0, 5]"
proof -
  from ex_span_Inr obtain tab where tab: "GetAnnualStatistics ex_span = Inr tab" ..
  from GetAnnualStatistics_rows [OF tab] have len: "length tab = 50" by blast
  have "Skew_column (GetAnnualStatistics ex_span) ! 0 = Skew (snd (tab ! 0))"
    using len by (simp add: Skew_column_def tab)
  also have "\<dots> = Fin (3 / 2)"
    using Skew_nth [OF tab, of 0] by (simp add: ex_span_windows stats_skew_ex)
  finally have a: "Skew_column (GetAnnualStatistics ex_span) ! 0 = Fin (3 / 2)" .
  have "Skew_column (GetAnnualStatistics ex_span) ! 1 = Skew (snd (tab ! 1))"
    using len by (simp add: Skew_column_def tab)
  also have "\<dots> = NaN"
    using Skew_nth [OF tab, of 1] by (simp add: ex_span_windows stats_skew_def)
  finally have b: "Skew_column (GetAnnualStatistics ex_span) ! 1 = NaN" .
  from a b adjusted_skew_ex sqrt5_neq show ?thesis
    by (simp add: ex_span_windows)
qed

subsection \<open>Degenerate input of the metric functions\<close>

lemma pathlength_zeros: "\<forall>v \<in> set xs. v = 0 \<Longrightarrow> pathlength xs = 0"
  by (induction xs rule: pathlength.induct) simp_all

text \<open>
  C7, as the code has it. The metric functions never raise. On an empty or all-null
  sequence CalcTqmean, CalcRBindex and Calc7Q return NaN and CalcExceed3TimesMedian
  returns the count 0. A zero sum of values in CalcRBindex gives NaN when the path length
  is zero too, as it is whenever no value is negative, and plus infinity otherwise.
\<close>

theorem MetricSet_degenerate:
  "(\<exists>v. CalcRBindex q = Inr v)
   \<and> (dropna q = [] \<longrightarrow>
        CalcTqmean q = NaN \<and> CalcRBindex q = Inr NaN \<and> Calc7Q q = NaN
        \<and> CalcExceed3TimesMedian q = 0)
   \<and> (sum_list (dropna q) = 0 \<longrightarrow>
        CalcRBindex q = Inr (if pathlength (dropna q) = 0 then NaN else PInf))
   \<and> ((\<forall>v \<in> set (dropna q). 0 \<le> v) \<and> sum_list (dropna q) = 0 \<longrightarrow> CalcRBindex q = Inr NaN)"
proof -
  have 1: "\<exists>v. CalcRBindex q = Inr v"
    by (simp add: CalcRBindex_eq)
  have 2: "dropna q = [] \<longrightarrow>
        CalcTqmean q = NaN \<and> CalcRBindex q = Inr NaN \<and> Calc7Q q = NaN
        \<and> CalcExceed3TimesMedian q = 0"
    by (simp add: CalcRBindex_eq CalcTqmean_def Calc7Q_def CalcExceed3TimesMedian_def
        rolling_mean_def series_min_def float64_def float_mean_def)
  have 3: "sum_list (dropna q) = 0 \<longrightarrow>
        CalcRBindex q = Inr (if pathlength (dropna q) = 0 then NaN else PInf)"
    using pathlength_nonneg [of "dropna q"] by (simp add: CalcRBindex_eq)
  have 4: "(\<forall>v \<in> set (dropna q). 0 \<le> v) \<and> sum_list (dropna q) = 0 \<longrightarrow> CalcRBindex q = Inr NaN"
  proof
    assume a: "(\<forall>v \<in> set (dropna q). 0 \<le> v) \<and> sum_list (dropna q) = 0"
    then have "\<forall>v \<in> set (dropna q). v = 0"
      using sum_list_nonneg_eq_0_iff [of "dropna q"] by blast
    then have "pathlength (dropna q) = 0" by (rule pathlength_zeros)
    with a show "CalcRBindex q = Inr NaN" by (simp add: CalcRBindex_eq)
  qed
  from 1 2 3 4 show ?thesis by blast
qed


theorem MetricSet_degenerate_witness:
  "dropna [None, None] = []
   \<and> CalcTqmean [None, None] = NaN \<and> CalcRBindex [None, None] = Inr NaN
   \<and> Calc7Q [None, None] = NaN \<and> CalcExceed3TimesMedian [None, None] = 0
   \<and> dropna [Some 0, None, Some 0] = [0, 0] \<and> sum_list (dropna [Some 0, None, Some 0]) = 0
   \<and> CalcRBindex [Some 0, None, Some 0] = Inr NaN"
  using MetricSet_degenerate [of "[None, None]"] MetricSet_degenerate [of "[Some 0, None, Some 0]"]
  by simp


text \<open>The count of CalcExceed3TimesMedian on an all-null sequence is 0, not NaN, and
  the division by the zero sum of -1 and 1 gives infinity, not NaN.\<close>

theorem MetricSet_NaN_counterexample:
  "CalcExceed3TimesMedian [None] = 0
   \<and> Fin (real (CalcExceed3TimesMedian [None])) \<noteq> NaN
   \<and> CalcRBindex [Some (- 1), Some 1] = Inr PInf"
  by (simp add: CalcExceed3TimesMedian_def CalcRBindex_def iloc_def float64_def)


end
